theory Spec2Isabelle
  imports Complex_Main "HOL-Library.Sublist" "HOL-Library.Char_ord" "HOL-Library.List_Lexorder"
begin

section \<open>Data model of \<open>src/wlog.ts\<close>\<close>

text \<open>
  \<open>enum LogFormat { TEXT = 'txt', JSON = 'json', CSV = 'csv' }\<close>: the value of a member is
  the file extension.
\<close>

datatype LogFormat = TEXT | JSON | CSV

fun LogFormat_value :: "LogFormat \<Rightarrow> string" where
  "LogFormat_value TEXT = ''txt''"
| "LogFormat_value JSON = ''json''"
| "LogFormat_value CSV = ''csv''"

text \<open>\<open>interface LogEntry\<close> (lines 25-29).\<close>

record LogEntry =
  timestamp :: string
  level :: string
  message :: string

text \<open>
  \<open>interface ServerOptions\<close> and \<open>interface WlogConfig\<close> (lines 43-85) as the caller
  passes them: every field may be left out. \<open>Required<WlogConfig>\<close>, the type of
  \<open>this.config\<close>, has every field filled in by the constructor.
\<close>

record ServerOptions =
  enable :: "bool option"
  port :: "int option"
  path :: "string option"
  livePath :: "string option"

record WlogConfig =
  logToConsole :: "bool option"
  logToFile :: "bool option"
  filePath :: "string option"
  fileFormat :: "LogFormat option"
  serverOptions :: "ServerOptions option"

record RequiredServerOptions =
  enable :: bool
  port :: int
  path :: string
  livePath :: string

record RequiredWlogConfig =
  logToConsole :: bool
  logToFile :: bool
  filePath :: string
  fileFormat :: LogFormat
  serverOptions :: RequiredServerOptions

text \<open>
  A JavaScript \<open>number\<close> as the query parameters can hold it. The only producer is
  \<open>parseInt\<close>, which returns an integer-valued number, \<open>NaN\<close> or an infinity.
\<close>

datatype number = NaN | Num int | Infinity bool

text \<open>\<open>interface LogQueryParams\<close>: every field is optional (\<open>None\<close> is \<open>undefined\<close>).
  The field \<open>order\<close> is declared \<open>'ASC' | 'DESC'\<close>, but the request handler stores an
  arbitrary string there through a cast, so the model keeps a string.\<close>

record LogQueryParams =
  startDate :: "string option"
  endDate :: "string option"
  level :: "string option"
  limit :: "number option"
  offset :: "number option"
  order :: "string option"

text \<open>The elements of \<open>values: any[]\<close>: strings and numbers.\<close>

datatype sqlval = SText string | SNum number

record BuiltQuery =
  query :: string
  "values" :: "sqlval list"

section \<open>JavaScript primitives used by the query builder\<close>

text \<open>Truthiness of an optional string: \<open>undefined\<close> and \<open>''\<close> are falsy.\<close>

fun truthy_string :: "string option \<Rightarrow> bool" where
  "truthy_string None = False"
| "truthy_string (Some s) = (s \<noteq> [])"

text \<open>Truthiness of an optional number: \<open>undefined\<close>, \<open>0\<close> and \<open>NaN\<close> are falsy.\<close>

fun truthy_number :: "number option \<Rightarrow> bool" where
  "truthy_number None = False"
| "truthy_number (Some NaN) = False"
| "truthy_number (Some (Num n)) = (n \<noteq> 0)"
| "truthy_number (Some (Infinity _)) = True"

text \<open>\<open>Array.prototype.join\<close> on an array of strings.\<close>

fun join :: "string \<Rightarrow> string list \<Rightarrow> string" where
  "join sep [] = []"
| "join sep [x] = x"
| "join sep (x # y # ys) = x @ sep @ join sep (y # ys)"

section \<open>The query builder\<close>

text \<open>
  \<open>Wlog.buildQueryFromParams\<close> (lines 306-343). The two arrays \<open>conditions\<close> and
  \<open>values\<close> are threaded through the three guarded pushes as a pair; \<open>the\<close> is only
  applied under the truthiness guard, where the field is defined.
\<close>

definition push_startDate ::
  "LogQueryParams \<Rightarrow> string list \<times> sqlval list \<Rightarrow> string list \<times> sqlval list" where
  "push_startDate params cv =
     (if truthy_string (startDate params)
      then (fst cv @ [''timestamp >= ?''], snd cv @ [SText (the (startDate params))])
      else cv)"

definition push_endDate ::
  "LogQueryParams \<Rightarrow> string list \<times> sqlval list \<Rightarrow> string list \<times> sqlval list" where
  "push_endDate params cv =
     (if truthy_string (endDate params)
      then (fst cv @ [''timestamp <= ?''], snd cv @ [SText (the (endDate params))])
      else cv)"

definition push_level ::
  "LogQueryParams \<Rightarrow> string list \<times> sqlval list \<Rightarrow> string list \<times> sqlval list" where
  "push_level params cv =
     (if truthy_string (level params)
      then (fst cv @ [''level = ?''], snd cv @ [SText (the (level params))])
      else cv)"

text \<open>\<open>params.order || 'DESC'\<close>\<close>

definition order_or_DESC :: "LogQueryParams \<Rightarrow> string" where
  "order_or_DESC params = (if truthy_string (order params) then the (order params) else ''DESC'')"

definition buildQueryFromParams :: "LogQueryParams \<Rightarrow> BuiltQuery" where
  "buildQueryFromParams params =
     (let cv = push_level params (push_endDate params (push_startDate params ([], [])));
          conditions = fst cv;
          vals = snd cv;
          q0 = ''SELECT * FROM logs'';
          q1 = (if length conditions > 0 then q0 @ '' WHERE '' @ join '' AND '' conditions else q0);
          q2 = q1 @ '' ORDER BY timestamp '' @ order_or_DESC params
      in if truthy_number (limit params)
         then (if truthy_number (offset params)
               then \<lparr>query = q2 @ '' LIMIT ?'' @ '' OFFSET ?'',
                     values = vals @ [SNum (the (limit params))] @ [SNum (the (offset params))]\<rparr>
               else \<lparr>query = q2 @ '' LIMIT ?'',
                     values = vals @ [SNum (the (limit params))]\<rparr>)
         else \<lparr>query = q2, values = vals\<rparr>)"

section \<open>The environment of a logger\<close>

text \<open>
  What \<open>JSON.parse\<close> returns and \<open>JSON.stringify\<close> takes. A log entry is the object
  with the three keys in declaration order.
\<close>

datatype json =
  JNull | JBool bool | JNum real | JStr string | JArr "json list" | JObj "(string \<times> json) list"

definition json_of_entry :: "LogEntry \<Rightarrow> json" where
  "json_of_entry entry =
     JObj [(''timestamp'', JStr (timestamp entry)),
           (''level'', JStr (LogEntry.level entry)),
           (''message'', JStr (message entry))]"

text \<open>
  The exceptions that can arise inside a facade call: \<open>db.run\<close> failing, a filesystem call
  failing, \<open>JSON.parse\<close> rejecting the file content, and \<open>logs.push\<close> on a parsed value
  that is not an array.
\<close>

datatype exn = StoreWriteError | FileIOError | SyntaxError | TypeError

datatype 'a result = Return 'a | Throw exn

text \<open>
  The library functions the code calls, and the system clock. \<open>clock n\<close> is the instant
  (milliseconds since the epoch) that the \<open>n\<close>-th \<open>new Date()\<close> of the process reads.
  \<open>JSON_parse\<close> returns \<open>None\<close> where \<open>JSON.parse\<close> throws.
\<close>

record runtime =
  clock :: "nat \<Rightarrow> int"
  toISOString :: "int \<Rightarrow> string"
  toLocaleString :: "int \<Rightarrow> string"
  dirname :: "string \<Rightarrow> string"
  JSON_parse :: "string \<Rightarrow> json option"
  JSON_stringify :: "json \<Rightarrow> string"

text \<open>
  What the outside world does to the calls of one facade call: whether \<open>db.run\<close> throws
  (disk, lock, corruption) and whether a filesystem call throws (permission, disk full).
\<close>

record faults =
  db_run_throws :: bool
  mkdirSync_throws :: bool
  readFileSync_throws :: bool
  writeFileSync_throws :: bool

definition no_faults :: faults where
  "no_faults = \<lparr>db_run_throws = False, mkdirSync_throws = False,
                 readFileSync_throws = False, writeFileSync_throws = False\<rparr>"

text \<open>A row of the table \<open>logs(id, level, message, timestamp)\<close>.\<close>

record LogRow =
  row_id :: nat
  row_level :: string
  row_message :: string
  row_timestamp :: string

datatype channel = ConsoleLog | ConsoleInfo | ConsoleError

datatype node = File string | Dir

text \<open>
  The state a logger acts on: the table \<open>logs\<close> of \<open>wlog.db\<close> with its \<open>AUTOINCREMENT\<close>
  counter, the lines written to the console (the channel, the text, and the error object
  passed as second argument if any), the filesystem as a map from paths to nodes, and the
  number of \<open>Date\<close> objects constructed so far.
\<close>

record world =
  logs :: "LogRow list"
  seq :: nat
  console :: "(channel \<times> string \<times> exn option) list"
  fs :: "string \<rightharpoonup> node"
  dates :: nat

definition bind_result ::
  "'a result \<times> world \<Rightarrow> ('a \<Rightarrow> world \<Rightarrow> 'b result \<times> world) \<Rightarrow> 'b result \<times> world" where
  "bind_result m f = (case m of (Throw e, w) \<Rightarrow> (Throw e, w) | (Return x, w) \<Rightarrow> f x w)"

text \<open>\<open>new Date()\<close> reads the clock.\<close>

definition new_Date :: "runtime \<Rightarrow> world \<Rightarrow> int \<times> world" where
  "new_Date rt w = (clock rt (dates w), w\<lparr>dates := Suc (dates w)\<rparr>)"

definition console_write :: "channel \<Rightarrow> string \<Rightarrow> exn option \<Rightarrow> world \<Rightarrow> world" where
  "console_write ch text err w = w\<lparr>console := console w @ [(ch, text, err)]\<rparr>"

text \<open>
  \<open>db.run("INSERT INTO logs (level, message, timestamp) VALUES (?, ?, ?)", [...])\<close>: the row
  gets the next id, or the call throws and the table is unchanged.
\<close>

definition db_run_insert ::
  "faults \<Rightarrow> string \<Rightarrow> string \<Rightarrow> string \<Rightarrow> world \<Rightarrow> unit result \<times> world" where
  "db_run_insert flt lvl msg ts w =
     (if db_run_throws flt then (Throw StoreWriteError, w)
      else (Return (),
            w\<lparr>logs := logs w @ [\<lparr>row_id = Suc (seq w), row_level = lvl,
                                   row_message = msg, row_timestamp = ts\<rparr>],
              seq := Suc (seq w)\<rparr>))"

text \<open>The calls of \<open>fs\<close>. The tree structure of paths is not modelled: a failure that
  comes from it is one of the failures of \<open>faults\<close>, and of the directories that
  \<open>mkdirSync(dir, { recursive: true })\<close> creates only \<open>dir\<close> itself is recorded.\<close>

definition existsSync :: "string \<Rightarrow> world \<Rightarrow> bool" where
  "existsSync p w = (fs w p \<noteq> None)"

definition mkdirSync :: "faults \<Rightarrow> string \<Rightarrow> world \<Rightarrow> unit result \<times> world" where
  "mkdirSync flt p w =
     (if mkdirSync_throws flt then (Throw FileIOError, w)
      else (case fs w p of
              Some (File c) \<Rightarrow> (Throw FileIOError, w)
            | _ \<Rightarrow> (Return (), w\<lparr>fs := (fs w)(p \<mapsto> Dir)\<rparr>)))"

definition readFileSync :: "faults \<Rightarrow> string \<Rightarrow> world \<Rightarrow> string result \<times> world" where
  "readFileSync flt p w =
     (if readFileSync_throws flt then (Throw FileIOError, w)
      else (case fs w p of
              Some (File c) \<Rightarrow> (Return c, w)
            | _ \<Rightarrow> (Throw FileIOError, w)))"

definition writeFileSync :: "faults \<Rightarrow> string \<Rightarrow> string \<Rightarrow> world \<Rightarrow> unit result \<times> world" where
  "writeFileSync flt p c w =
     (if writeFileSync_throws flt then (Throw FileIOError, w)
      else (case fs w p of
              Some Dir \<Rightarrow> (Throw FileIOError, w)
            | _ \<Rightarrow> (Return (), w\<lparr>fs := (fs w)(p \<mapsto> File c)\<rparr>)))"

section \<open>The logger\<close>

text \<open>The constructor's merge of the caller's configuration with the defaults
  (lines 120-131).\<close>

definition Wlog_config :: "WlogConfig \<Rightarrow> RequiredWlogConfig" where
  "Wlog_config config =
     \<lparr>logToConsole = (case WlogConfig.logToConsole config of Some b \<Rightarrow> b | None \<Rightarrow> True),
      logToFile = (case WlogConfig.logToFile config of Some b \<Rightarrow> b | None \<Rightarrow> False),
      filePath = (case WlogConfig.filePath config of Some p \<Rightarrow> p | None \<Rightarrow> ''logs''),
      fileFormat = (case WlogConfig.fileFormat config of Some f \<Rightarrow> f | None \<Rightarrow> TEXT),
      serverOptions =
        \<lparr>enable = (case Option.bind (WlogConfig.serverOptions config) ServerOptions.enable of
                      Some b \<Rightarrow> b | None \<Rightarrow> False),
         port = (case Option.bind (WlogConfig.serverOptions config) ServerOptions.port of
                   Some n \<Rightarrow> n | None \<Rightarrow> 3000),
         path = (case Option.bind (WlogConfig.serverOptions config) ServerOptions.path of
                   Some p \<Rightarrow> p | None \<Rightarrow> ''/logs''),
         livePath = (case Option.bind (WlogConfig.serverOptions config) ServerOptions.livePath of
                       Some p \<Rightarrow> p | None \<Rightarrow> ''/live'')\<rparr>\<rparr>"

definition getTimestamp :: "runtime \<Rightarrow> world \<Rightarrow> string \<times> world" where
  "getTimestamp rt w = (let (d, w') = new_Date rt w in (toLocaleString rt d, w'))"

definition getFullFilePath :: "RequiredWlogConfig \<Rightarrow> string" where
  "getFullFilePath config = filePath config @ ''.'' @ LogFormat_value (fileFormat config)"

definition formatLogEntry :: "runtime \<Rightarrow> string \<Rightarrow> string \<Rightarrow> world \<Rightarrow> LogEntry \<times> world" where
  "formatLogEntry rt lvl msg w =
     (let (ts, w') = getTimestamp rt w
      in (\<lparr>timestamp = ts, level = lvl, message = msg\<rparr>, w'))"

definition ensureDirectoryExists ::
  "runtime \<Rightarrow> faults \<Rightarrow> string \<Rightarrow> world \<Rightarrow> unit result \<times> world" where
  "ensureDirectoryExists rt flt file_path w =
     (let dir = dirname rt file_path
      in if \<not> existsSync dir w then mkdirSync flt dir w else (Return (), w))"

text \<open>\<open>logs.push(entry)\<close> on the value \<open>JSON.parse\<close> returned.\<close>

fun array_push :: "json \<Rightarrow> json \<Rightarrow> json result" where
  "array_push (JArr xs) v = Return (JArr (xs @ [v]))"
| "array_push _ v = Throw TypeError"

text \<open>The \<open>switch\<close> of \<open>writeToFile\<close> (lines 280-298): the new content of the file.\<close>

definition newContent_of :: "runtime \<Rightarrow> LogFormat \<Rightarrow> string \<Rightarrow> LogEntry \<Rightarrow> string result" where
  "newContent_of rt fmt content entry =
     (case fmt of
        JSON \<Rightarrow>
          (case (if content \<noteq> [] then JSON_parse rt content else Some (JArr [])) of
             None \<Rightarrow> Throw SyntaxError
           | Some parsed \<Rightarrow>
               (case array_push parsed (json_of_entry entry) of
                  Throw e \<Rightarrow> Throw e
                | Return pushed \<Rightarrow> Return (JSON_stringify rt pushed)))
      | CSV \<Rightarrow>
          Return ((if content = [] then ''timestamp,level,message\<newline>'' else content)
                  @ timestamp entry @ '','' @ LogEntry.level entry @ '','' @ message entry
                  @ ''\<newline>'')
      | TEXT \<Rightarrow>
          Return (content @ ''['' @ timestamp entry @ ''] ['' @ LogEntry.level entry @ ''] ''
                  @ message entry @ ''\<newline>''))"

text \<open>The body of the \<open>try\<close> of \<open>writeToFile\<close> (lines 270-300).\<close>

definition writeToFile_try ::
  "runtime \<Rightarrow> RequiredWlogConfig \<Rightarrow> faults \<Rightarrow> LogEntry \<Rightarrow> world \<Rightarrow> unit result \<times> world" where
  "writeToFile_try rt config flt entry w =
     (let file_path = getFullFilePath config
      in bind_result (ensureDirectoryExists rt flt file_path w) (\<lambda>_ w1.
         bind_result (if existsSync file_path w1 then readFileSync flt file_path w1
                      else (Return [], w1)) (\<lambda>content w2.
         bind_result (newContent_of rt (fileFormat config) content entry, w2) (\<lambda>newContent w3.
         writeFileSync flt file_path newContent w3))))"

text \<open>\<open>writeToFile\<close> with its \<open>catch\<close> (lines 301-303): the error goes to
  \<open>console.error\<close> and the method returns.\<close>

definition writeToFile :: "runtime \<Rightarrow> RequiredWlogConfig \<Rightarrow> faults \<Rightarrow> LogEntry \<Rightarrow> world \<Rightarrow> world" where
  "writeToFile rt config flt entry w =
     (case writeToFile_try rt config flt entry w of
        (Throw e, w') \<Rightarrow> console_write ConsoleError ''Failed to write to log file:'' (Some e) w'
      | (Return _, w') \<Rightarrow> w')"

text \<open>\<open>log\<close>, \<open>info\<close> and \<open>error\<close> (lines 350-381). The arguments of \<open>db.run\<close> are
  evaluated first, so the \<open>Date\<close> of the stored timestamp is the first one constructed.\<close>

definition Wlog_log ::
  "runtime \<Rightarrow> RequiredWlogConfig \<Rightarrow> faults \<Rightarrow> string \<Rightarrow> world \<Rightarrow> unit result \<times> world" where
  "Wlog_log rt config flt msg w =
     (let (d, w0) = new_Date rt w
      in bind_result (db_run_insert flt ''log'' msg (toISOString rt d) w0) (\<lambda>_ w1.
         let w2 = (if logToConsole config
                   then (let (ts, w') = getTimestamp rt w1
                         in console_write ConsoleLog (''['' @ ts @ ''] [LOG] '' @ msg) None w')
                   else w1);
             w3 = (if logToFile config
                   then (let (entry, w') = formatLogEntry rt ''LOG'' msg w2
                         in writeToFile rt config flt entry w')
                   else w2)
         in (Return (), w3)))"

definition Wlog_info ::
  "runtime \<Rightarrow> RequiredWlogConfig \<Rightarrow> faults \<Rightarrow> string \<Rightarrow> world \<Rightarrow> unit result \<times> world" where
  "Wlog_info rt config flt msg w =
     (let (d, w0) = new_Date rt w
      in bind_result (db_run_insert flt ''info'' msg (toISOString rt d) w0) (\<lambda>_ w1.
         let w2 = (if logToConsole config
                   then (let (ts, w') = getTimestamp rt w1
                         in console_write ConsoleInfo (''['' @ ts @ ''] [INFO] '' @ msg) None w')
                   else w1);
             w3 = (if logToFile config
                   then (let (entry, w') = formatLogEntry rt ''INFO'' msg w2
                         in writeToFile rt config flt entry w')
                   else w2)
         in (Return (), w3)))"

definition Wlog_error ::
  "runtime \<Rightarrow> RequiredWlogConfig \<Rightarrow> faults \<Rightarrow> string \<Rightarrow> world \<Rightarrow> unit result \<times> world" where
  "Wlog_error rt config flt msg w =
     (let (d, w0) = new_Date rt w
      in bind_result (db_run_insert flt ''error'' msg (toISOString rt d) w0) (\<lambda>_ w1.
         let w2 = (if logToConsole config
                   then (let (ts, w') = getTimestamp rt w1
                         in console_write ConsoleError (''['' @ ts @ ''] [ERROR] '' @ msg) None w')
                   else w1);
             w3 = (if logToFile config
                   then (let (entry, w') = formatLogEntry rt ''ERROR'' msg w2
                         in writeToFile rt config flt entry w')
                   else w2)
         in (Return (), w3)))"

text \<open>The three entry points as one type of call, and a run of consecutive calls on one
  logger: an exception that leaves a call ends the run, as it does a script.\<close>

datatype call = Log string | Info string | Error string

fun facade ::
  "runtime \<Rightarrow> RequiredWlogConfig \<Rightarrow> faults \<Rightarrow> call \<Rightarrow> world \<Rightarrow> unit result \<times> world" where
  "facade rt config flt (Log msg) w = Wlog_log rt config flt msg w"
| "facade rt config flt (Info msg) w = Wlog_info rt config flt msg w"
| "facade rt config flt (Error msg) w = Wlog_error rt config flt msg w"

fun run_calls ::
  "runtime \<Rightarrow> RequiredWlogConfig \<Rightarrow> faults \<Rightarrow> call list \<Rightarrow> world \<Rightarrow> unit result \<times> world" where
  "run_calls rt config flt [] w = (Return (), w)"
| "run_calls rt config flt (c # cs) w =
     bind_result (facade rt config flt c w) (\<lambda>_ w'. run_calls rt config flt cs w')"

text \<open>Consecutive writes of entries through the file sink.\<close>

fun write_all :: "runtime \<Rightarrow> RequiredWlogConfig \<Rightarrow> faults \<Rightarrow> LogEntry list \<Rightarrow> world \<Rightarrow> world" where
  "write_all rt config flt [] w = w"
| "write_all rt config flt (entry # entries) w =
     write_all rt config flt entries (writeToFile rt config flt entry w)"

section \<open>The query endpoint\<close>

text \<open>\<open>String.prototype.toUpperCase\<close> on ASCII text.\<close>

definition toUpperCase_char :: "char \<Rightarrow> char" where
  "toUpperCase_char c =
     (case map_of (zip ''abcdefghijklmnopqrstuvwxyz'' ''ABCDEFGHIJKLMNOPQRSTUVWXYZ'') c of
        Some u \<Rightarrow> u | None \<Rightarrow> c)"

definition toUpperCase :: "string \<Rightarrow> string" where
  "toUpperCase s = map toUpperCase_char s"

text \<open>\<open>x || undefined\<close> on the result of \<open>url.searchParams.get\<close>.\<close>

definition or_undefined :: "string option \<Rightarrow> string option" where
  "or_undefined x = (if truthy_string x then x else None)"

text \<open>
  The parameters the \<open>fetch\<close> handler builds from the query string (lines 139-146).
  \<open>get\<close> is \<open>url.searchParams.get\<close> (\<open>None\<close> for \<open>null\<close>), \<open>parseInt\<close> the global function.
\<close>

definition params_of_request ::
  "(string \<Rightarrow> number) \<Rightarrow> (string \<Rightarrow> string option) \<Rightarrow> LogQueryParams" where
  "params_of_request parseInt get =
     \<lparr>startDate = or_undefined (get ''startDate''),
      endDate = or_undefined (get ''endDate''),
      level = or_undefined (get ''level''),
      limit = (if truthy_string (get ''limit'') then Some (parseInt (the (get ''limit''))) else None),
      offset = (if truthy_string (get ''offset'') then Some (parseInt (the (get ''offset''))) else None),
      order = (if truthy_string (map_option toUpperCase (get ''order''))
               then map_option toUpperCase (get ''order'') else Some ''DESC'')\<rparr>"

subsection \<open>The statement executor\<close>

















section \<open>Vocabulary of the properties\<close>

text \<open>
  The predicates of a filter request as the specification describes them: one per field
  among \<open>startDate\<close>, \<open>endDate\<close>, \<open>level\<close> that is present (defined and not the empty
  string), in that order, each with the value to bind.
\<close>

definition spec_predicates :: "LogQueryParams \<Rightarrow> (string \<times> string) list" where
  "spec_predicates params =
     map (\<lambda>(field, text). (text, the field))
       (filter (\<lambda>(field, text). truthy_string field)
          [(startDate params, ''timestamp >= ?''),
           (endDate params, ''timestamp <= ?''),
           (level params, ''level = ?'')])"




text \<open>The message of a call, the level tag it stores, the label it prints and writes to
  the file, and its console channel.\<close>

fun call_message :: "call \<Rightarrow> string" where
  "call_message (Log msg) = msg"
| "call_message (Info msg) = msg"
| "call_message (Error msg) = msg"

fun call_level :: "call \<Rightarrow> string" where
  "call_level (Log msg) = ''log''"
| "call_level (Info msg) = ''info''"
| "call_level (Error msg) = ''error''"

fun call_label :: "call \<Rightarrow> string" where
  "call_label (Log msg) = ''LOG''"
| "call_label (Info msg) = ''INFO''"
| "call_label (Error msg) = ''ERROR''"

fun call_channel :: "call \<Rightarrow> channel" where
  "call_channel (Log msg) = ConsoleLog"
| "call_channel (Info msg) = ConsoleInfo"
| "call_channel (Error msg) = ConsoleError"

text \<open>What a call that returns leaves behind: the row it stores, the line it prints when
  the console is enabled, the entry it hands to the file sink, and the report of a failure
  of the file sink. \<open>d\<close> is the number of the clock reading used.\<close>

definition stored_row :: "runtime \<Rightarrow> call \<Rightarrow> world \<Rightarrow> LogRow" where
  "stored_row rt c w =
     \<lparr>row_id = Suc (seq w), row_level = call_level c, row_message = call_message c,
      row_timestamp = toISOString rt (clock rt (dates w))\<rparr>"

definition console_line :: "runtime \<Rightarrow> call \<Rightarrow> nat \<Rightarrow> channel \<times> string \<times> exn option" where
  "console_line rt c d =
     (call_channel c,
      ''['' @ toLocaleString rt (clock rt d) @ ''] ['' @ call_label c @ ''] '' @ call_message c,
      None)"

definition logged_entry :: "runtime \<Rightarrow> call \<Rightarrow> nat \<Rightarrow> LogEntry" where
  "logged_entry rt c d =
     \<lparr>timestamp = toLocaleString rt (clock rt d), level = call_label c,
      message = call_message c\<rparr>"

definition failure_report :: "exn \<Rightarrow> channel \<times> string \<times> exn option" where
  "failure_report e = (ConsoleError, ''Failed to write to log file:'', Some e)"

text \<open>The three steps of a call whose insert succeeds, each on the state the step before
  left.\<close>

definition insert_step :: "runtime \<Rightarrow> call \<Rightarrow> world \<Rightarrow> world" where
  "insert_step rt c w =
     w\<lparr>logs := logs w @ [stored_row rt c w], seq := Suc (seq w), dates := Suc (dates w)\<rparr>"

definition console_step :: "runtime \<Rightarrow> RequiredWlogConfig \<Rightarrow> call \<Rightarrow> world \<Rightarrow> world" where
  "console_step rt config c w =
     (if logToConsole config
      then w\<lparr>console := console w @ [console_line rt c (dates w)], dates := Suc (dates w)\<rparr>
      else w)"

definition file_step ::
  "runtime \<Rightarrow> RequiredWlogConfig \<Rightarrow> faults \<Rightarrow> call \<Rightarrow> world \<Rightarrow> world" where
  "file_step rt config flt c w =
     (if logToFile config
      then writeToFile rt config flt (logged_entry rt c (dates w)) (w\<lparr>dates := Suc (dates w)\<rparr>)
      else w)"

text \<open>The content of a file; an absent file has none.\<close>

definition file_content :: "world \<Rightarrow> string \<Rightarrow> string" where
  "file_content w p = (case fs w p of Some (File c) \<Rightarrow> c | _ \<Rightarrow> [])"

definition csv_header :: string where
  "csv_header = ''timestamp,level,message\<newline>''"

text \<open>The number of \<open>Date\<close> objects one facade call constructs, and the entries that a run
  of calls starting at clock reading \<open>d\<close> hands to the file sink.\<close>

definition dates_per_call :: "RequiredWlogConfig \<Rightarrow> nat" where
  "dates_per_call config =
     1 + (if logToConsole config then 1 else 0) + (if logToFile config then 1 else 0)"

fun logged_entries :: "runtime \<Rightarrow> nat \<Rightarrow> nat \<Rightarrow> call list \<Rightarrow> LogEntry list" where
  "logged_entries rt per d [] = []"
| "logged_entries rt per d (c # cs) =
     logged_entry rt c (d + per - 1) # logged_entries rt per (d + per) cs"

definition csv_line :: "LogEntry \<Rightarrow> string" where
  "csv_line entry =
     timestamp entry @ '','' @ LogEntry.level entry @ '','' @ message entry @ ''\<newline>''"

text \<open>The lines of a text, each ended by a newline (a last line may lack it).\<close>

fun split_lines :: "string \<Rightarrow> string \<Rightarrow> string list" where
  "split_lines acc [] = (if acc = [] then [] else [acc])"
| "split_lines acc (c # cs) =
     (if c = CHR 0x0A then acc # split_lines [] cs else split_lines (acc @ [c]) cs)"

definition file_lines :: "string \<Rightarrow> string list" where
  "file_lines content = split_lines [] content"

text \<open>\<open>JSON.stringify\<close> followed by \<open>JSON.parse\<close> gives the value back, and the text is
  not empty.\<close>

definition JSON_roundtrip :: "runtime \<Rightarrow> json \<Rightarrow> bool" where
  "JSON_roundtrip rt v =
     (JSON_stringify rt v \<noteq> [] \<and> JSON_parse rt (JSON_stringify rt v) = Some v)"

definition json_of_entries :: "LogEntry list \<Rightarrow> json" where
  "json_of_entries entries = JArr (map json_of_entry entries)"

section \<open>A concrete environment\<close>

text \<open>
  A runtime to evaluate the model on: a clock that advances one second between two
  readings, the two renderings of an instant as an \<open>en-US\<close> process in UTC prints them
  during the first ten seconds of 1970, \<open>dirname\<close> on relative paths such as
  \<open>t.csv\<close> and \<open>logs/csv-logs.csv\<close>, and the two JSON functions on the arrays of the two
  entries below.
\<close>

definition decimal_digit :: "int \<Rightarrow> char" where
  "decimal_digit n = ''0123456789'' ! nat (n mod 10)"

definition example_toISOString :: "int \<Rightarrow> string" where
  "example_toISOString d =
     ''1970-01-01T00:00:0'' @ [decimal_digit (d div 1000)] @ ''.''
     @ [decimal_digit (d div 100), decimal_digit (d div 10), decimal_digit d] @ ''Z''"

definition example_toLocaleString :: "int \<Rightarrow> string" where
  "example_toLocaleString d = ''1/1/1970, 12:00:0'' @ [decimal_digit (d div 1000)] @ '' AM''"

definition example_entries :: "LogEntry list" where
  "example_entries =
     [\<lparr>timestamp = ''1/1/1970, 12:00:01 AM'', level = ''INFO'', message = ''a''\<rparr>,
      \<lparr>timestamp = ''1/1/1970, 12:00:02 AM'', level = ''ERROR'', message = ''b''\<rparr>]"

definition example_text1 :: string where
  \<open>example_text1 =
     ''[\<newline>  {\<newline>    "timestamp": "1/1/1970, 12:00:01 AM",\<newline>    "level": "INFO",\<newline>    "message": "a"\<newline>  }\<newline>]''\<close>

definition example_text2 :: string where
  \<open>example_text2 =
     ''[\<newline>  {\<newline>    "timestamp": "1/1/1970, 12:00:01 AM",\<newline>    "level": "INFO",\<newline>    "message": "a"\<newline>  },\<newline>  {\<newline>    "timestamp": "1/1/1970, 12:00:02 AM",\<newline>    "level": "ERROR",\<newline>    "message": "b"\<newline>  }\<newline>]''\<close>

definition example_JSON_stringify :: "json \<Rightarrow> string" where
  "example_JSON_stringify v =
     (if v = json_of_entries (take 1 example_entries) then example_text1
      else if v = json_of_entries example_entries then example_text2
      else ''null'')"

definition example_JSON_parse :: "string \<Rightarrow> json option" where
  "example_JSON_parse text =
     (if text = example_text1 then Some (json_of_entries (take 1 example_entries))
      else if text = example_text2 then Some (json_of_entries example_entries)
      else if text = ''null'' then Some JNull
      else None)"

definition example_dirname :: "string \<Rightarrow> string" where
  "example_dirname p =
     (if CHR ''/'' \<in> set p then rev (tl (dropWhile (\<lambda>c. c \<noteq> CHR ''/'') (rev p))) else ''.'')"

definition example_runtime :: runtime where
  "example_runtime =
     \<lparr>clock = (\<lambda>n. 1000 * int n),
      toISOString = example_toISOString,
      toLocaleString = example_toLocaleString,
      dirname = example_dirname,
      JSON_parse = example_JSON_parse,
      JSON_stringify = example_JSON_stringify\<rparr>"

text \<open>The three loggers of \<open>src/index.ts\<close> and the logger of the scenario with the file
  \<open>t.csv\<close>, as the constructor configures them, and a state with an empty table, nothing
  printed and no file.\<close>

definition textLogger :: RequiredWlogConfig where
  "textLogger =
     Wlog_config \<lparr>WlogConfig.logToConsole = Some True, WlogConfig.logToFile = Some True,
       WlogConfig.filePath = Some ''logs/text-logs'', WlogConfig.fileFormat = Some TEXT,
       WlogConfig.serverOptions = Some \<lparr>ServerOptions.enable = Some True, ServerOptions.port = None, ServerOptions.path = None, ServerOptions.livePath = None\<rparr>\<rparr>"

definition jsonLogger :: RequiredWlogConfig where
  "jsonLogger =
     Wlog_config \<lparr>WlogConfig.logToConsole = Some False, WlogConfig.logToFile = Some True,
       WlogConfig.filePath = Some ''logs/json-logs'', WlogConfig.fileFormat = Some JSON, WlogConfig.serverOptions = None\<rparr>"

definition csvLogger :: RequiredWlogConfig where
  "csvLogger =
     Wlog_config \<lparr>WlogConfig.logToConsole = Some False, WlogConfig.logToFile = Some True,
       WlogConfig.filePath = Some ''logs/csv-logs'', WlogConfig.fileFormat = Some CSV, WlogConfig.serverOptions = None\<rparr>"

definition scenarioLogger :: RequiredWlogConfig where
  "scenarioLogger =
     Wlog_config \<lparr>WlogConfig.logToConsole = None, WlogConfig.logToFile = Some True,
       WlogConfig.filePath = Some ''t'', WlogConfig.fileFormat = Some CSV, WlogConfig.serverOptions = None\<rparr>"

definition defaultLogger :: RequiredWlogConfig where
  "defaultLogger =
     Wlog_config \<lparr>WlogConfig.logToConsole = None, WlogConfig.logToFile = None,
       WlogConfig.filePath = None, WlogConfig.fileFormat = None, WlogConfig.serverOptions = None\<rparr>"

definition fresh_world :: world where
  "fresh_world = \<lparr>logs = [], seq = 0, console = [], fs = Map.empty, dates = 0\<rparr>"




section \<open>Unfolding the concrete environment\<close>

lemmas logger_defs = textLogger_def jsonLogger_def csvLogger_def scenarioLogger_def
  defaultLogger_def Wlog_config_def getFullFilePath_def

lemmas example_defs = example_runtime_def example_toISOString_def example_toLocaleString_def
  example_dirname_def decimal_digit_def fresh_world_def no_faults_def

section \<open>The query builder: predicates, bound values, falsy fields\<close>

lemma pushed_conditions:
  "fst (push_level p (push_endDate p (push_startDate p ([], [])))) = map fst (spec_predicates p)"
  by (simp add: push_level_def push_endDate_def push_startDate_def spec_predicates_def)

lemma pushed_values:
  "snd (push_level p (push_endDate p (push_startDate p ([], []))))
     = map (SText \<circ> snd) (spec_predicates p)"
  by (simp add: push_level_def push_endDate_def push_startDate_def spec_predicates_def)

lemma build_explicit:
  "buildQueryFromParams params =
     \<lparr>query = ''SELECT * FROM logs''
        @ (if spec_predicates params = [] then []
           else '' WHERE '' @ join '' AND '' (map fst (spec_predicates params)))
        @ '' ORDER BY timestamp '' @ order_or_DESC params
        @ (if truthy_number (limit params)
           then '' LIMIT ?'' @ (if truthy_number (offset params) then '' OFFSET ?'' else [])
           else []),
      values = map (SText \<circ> snd) (spec_predicates params)
        @ (if truthy_number (limit params)
           then SNum (the (limit params))
                # (if truthy_number (offset params) then [SNum (the (offset params))] else [])
           else [])\<rparr>"
  by (simp add: buildQueryFromParams_def Let_def pushed_conditions pushed_values)

lemma spec_predicates_limit [simp]: "spec_predicates (p\<lparr>limit := x\<rparr>) = spec_predicates p"
  by (simp add: spec_predicates_def)

lemma spec_predicates_offset [simp]: "spec_predicates (p\<lparr>offset := x\<rparr>) = spec_predicates p"
  by (simp add: spec_predicates_def)

lemma spec_predicates_order [simp]: "spec_predicates (p\<lparr>order := x\<rparr>) = spec_predicates p"
  by (simp add: spec_predicates_def)

lemma order_or_DESC_update [simp]:
  "order_or_DESC (p\<lparr>limit := x\<rparr>) = order_or_DESC p"
  "order_or_DESC (p\<lparr>offset := y\<rparr>) = order_or_DESC p"
  "order_or_DESC (p\<lparr>startDate := s\<rparr>) = order_or_DESC p"
  "order_or_DESC (p\<lparr>endDate := s\<rparr>) = order_or_DESC p"
  "order_or_DESC (p\<lparr>LogQueryParams.level := s\<rparr>) = order_or_DESC p"
  by (simp_all add: order_or_DESC_def)

lemma spec_predicates_empty_string:
  "spec_predicates (p\<lparr>startDate := Some []\<rparr>) = spec_predicates (p\<lparr>startDate := None\<rparr>)"
  "spec_predicates (p\<lparr>endDate := Some []\<rparr>) = spec_predicates (p\<lparr>endDate := None\<rparr>)"
  "spec_predicates (p\<lparr>LogQueryParams.level := Some []\<rparr>)
     = spec_predicates (p\<lparr>LogQueryParams.level := None\<rparr>)"
  by (simp_all add: spec_predicates_def)

text \<open>All three fields present: the three predicates in the fixed order, joined by
  \<open>AND\<close>, and the three values in the same order.\<close>

lemma build_all_three:
  "buildQueryFromParams
     \<lparr>startDate = Some ''2024-01-01'', endDate = Some ''2024-12-31'', level = Some ''error'',
      limit = None, offset = None, order = None\<rparr>
   = \<lparr>query = ''SELECT * FROM logs WHERE timestamp >= ? AND timestamp <= ? AND level = ? ORDER BY timestamp DESC'',
      values = [SText ''2024-01-01'', SText ''2024-12-31'', SText ''error'']\<rparr>"
  by (simp add: build_explicit spec_predicates_def order_or_DESC_def)

text \<open>
  C4. For every filter request the statement is \<open>SELECT * FROM logs\<close>, then, when
  at least one of \<open>startDate\<close>, \<open>endDate\<close>, \<open>level\<close> is present, \<open>WHERE\<close> and the predicates
  of the present fields (\<open>timestamp >= ?\<close>, \<open>timestamp <= ?\<close>, \<open>level = ?\<close>, in that order)
  joined by \<open>AND\<close>, and no \<open>WHERE\<close> clause when none is present; the bound values start
  with the values of the present fields in the same order. A field is present when it is
  defined and not the empty string. The \<open>ORDER BY\<close> clause and the pagination clauses
  with their values follow.
\<close>

theorem C4_query_builder_predicates:
  "buildQueryFromParams params =
     \<lparr>query = ''SELECT * FROM logs''
        @ (if spec_predicates params = [] then []
           else '' WHERE '' @ join '' AND '' (map fst (spec_predicates params)))
        @ '' ORDER BY timestamp '' @ order_or_DESC params
        @ (if truthy_number (limit params)
           then '' LIMIT ?'' @ (if truthy_number (offset params) then '' OFFSET ?'' else [])
           else []),
      values = map (SText \<circ> snd) (spec_predicates params)
        @ (if truthy_number (limit params)
           then SNum (the (limit params))
                # (if truthy_number (offset params) then [SNum (the (offset params))] else [])
           else [])\<rparr>"
proof -
  let ?pushed = "push_level params (push_endDate params (push_startDate params ([], [])))"
  have conditions: "fst ?pushed = map fst (spec_predicates params)"
    by (rule pushed_conditions)
  have bound: "snd ?pushed = map (SText \<circ> snd) (spec_predicates params)"
    by (rule pushed_values)
  have some: "(0 < length (fst ?pushed)) = (spec_predicates params \<noteq> [])"
    by (simp add: conditions)
  show ?thesis
    unfolding buildQueryFromParams_def Let_def some bound conditions by simp
qed

text \<open>
  C10. The query builder treats falsy values as absent. A limit of \<open>0\<close> (or \<open>NaN\<close>)
  builds what a missing limit builds: the statement ends with the \<open>ORDER BY\<close> clause and
  only the predicate values are bound. With a limit \<open>k\<close> and an offset of \<open>0\<close> the
  statement has no \<open>OFFSET\<close> clause and binds no offset. An empty \<open>startDate\<close>, \<open>endDate\<close>
  or \<open>level\<close> builds what the missing field builds.
\<close>

theorem C10_falsy_fields_are_absent:
  "buildQueryFromParams (params\<lparr>limit := Some (Num 0)\<rparr>)
     = buildQueryFromParams (params\<lparr>limit := None\<rparr>)
   \<and> buildQueryFromParams (params\<lparr>limit := Some NaN\<rparr>)
     = buildQueryFromParams (params\<lparr>limit := None\<rparr>)
   \<and> buildQueryFromParams (params\<lparr>offset := Some (Num 0)\<rparr>)
     = buildQueryFromParams (params\<lparr>offset := None\<rparr>)
   \<and> buildQueryFromParams (params\<lparr>startDate := Some []\<rparr>)
     = buildQueryFromParams (params\<lparr>startDate := None\<rparr>)
   \<and> buildQueryFromParams (params\<lparr>endDate := Some []\<rparr>)
     = buildQueryFromParams (params\<lparr>endDate := None\<rparr>)
   \<and> buildQueryFromParams (params\<lparr>LogQueryParams.level := Some []\<rparr>)
     = buildQueryFromParams (params\<lparr>LogQueryParams.level := None\<rparr>)
   \<and> query (buildQueryFromParams (params\<lparr>limit := Some (Num 0)\<rparr>))
     = ''SELECT * FROM logs''
       @ (if spec_predicates params = [] then []
          else '' WHERE '' @ join '' AND '' (map fst (spec_predicates params)))
       @ '' ORDER BY timestamp '' @ order_or_DESC params
   \<and> values (buildQueryFromParams (params\<lparr>limit := Some (Num 0)\<rparr>))
     = map (SText \<circ> snd) (spec_predicates params)
   \<and> query (buildQueryFromParams (params\<lparr>limit := Some (Num k), offset := Some (Num 0)\<rparr>))
     = ''SELECT * FROM logs''
       @ (if spec_predicates params = [] then []
          else '' WHERE '' @ join '' AND '' (map fst (spec_predicates params)))
       @ '' ORDER BY timestamp '' @ order_or_DESC params
       @ (if k = 0 then [] else '' LIMIT ?'')
   \<and> values (buildQueryFromParams (params\<lparr>limit := Some (Num k), offset := Some (Num 0)\<rparr>))
     = map (SText \<circ> snd) (spec_predicates params) @ (if k = 0 then [] else [SNum (Num k)])"
proof -
  have falsy_limit: "\<not> truthy_number (limit (params\<lparr>limit := l\<rparr>))"
    if "l = Some (Num 0) \<or> l = Some NaN \<or> l = None" for l
    using that by auto
  have no_limit: "buildQueryFromParams (params\<lparr>limit := l\<rparr>)
      = \<lparr>query = ''SELECT * FROM logs''
           @ (if spec_predicates params = [] then []
              else '' WHERE '' @ join '' AND '' (map fst (spec_predicates params)))
           @ '' ORDER BY timestamp '' @ order_or_DESC params,
         values = map (SText \<circ> snd) (spec_predicates params)\<rparr>"
    if "l = Some (Num 0) \<or> l = Some NaN \<or> l = None" for l
    using falsy_limit [OF that] by (simp add: build_explicit)
  have zero: "buildQueryFromParams (params\<lparr>limit := Some (Num 0)\<rparr>)
      = buildQueryFromParams (params\<lparr>limit := None\<rparr>)"
    using no_limit [of "Some (Num 0)"] no_limit [of None] by simp
  have nan: "buildQueryFromParams (params\<lparr>limit := Some NaN\<rparr>)
      = buildQueryFromParams (params\<lparr>limit := None\<rparr>)"
    using no_limit [of "Some NaN"] no_limit [of None] by simp
  have no_offset: "buildQueryFromParams (params\<lparr>offset := Some (Num 0)\<rparr>)
      = buildQueryFromParams (params\<lparr>offset := None\<rparr>)"
    by (simp add: build_explicit)
  have no_start: "buildQueryFromParams (params\<lparr>startDate := Some []\<rparr>)
      = buildQueryFromParams (params\<lparr>startDate := None\<rparr>)"
    by (simp add: build_explicit spec_predicates_empty_string)
  have no_end: "buildQueryFromParams (params\<lparr>endDate := Some []\<rparr>)
      = buildQueryFromParams (params\<lparr>endDate := None\<rparr>)"
    by (simp add: build_explicit spec_predicates_empty_string)
  have no_level: "buildQueryFromParams (params\<lparr>LogQueryParams.level := Some []\<rparr>)
      = buildQueryFromParams (params\<lparr>LogQueryParams.level := None\<rparr>)"
    by (simp add: build_explicit spec_predicates_empty_string)
  have q0: "query (buildQueryFromParams (params\<lparr>limit := Some (Num 0)\<rparr>))
      = ''SELECT * FROM logs''
        @ (if spec_predicates params = [] then []
           else '' WHERE '' @ join '' AND '' (map fst (spec_predicates params)))
        @ '' ORDER BY timestamp '' @ order_or_DESC params"
    and v0: "values (buildQueryFromParams (params\<lparr>limit := Some (Num 0)\<rparr>))
      = map (SText \<circ> snd) (spec_predicates params)"
    by (simp_all add: no_limit)
  have qk: "query (buildQueryFromParams (params\<lparr>limit := Some (Num k), offset := Some (Num 0)\<rparr>))
      = ''SELECT * FROM logs''
        @ (if spec_predicates params = [] then []
           else '' WHERE '' @ join '' AND '' (map fst (spec_predicates params)))
        @ '' ORDER BY timestamp '' @ order_or_DESC params
        @ (if k = 0 then [] else '' LIMIT ?'')"
    and vk: "values (buildQueryFromParams (params\<lparr>limit := Some (Num k), offset := Some (Num 0)\<rparr>))
      = map (SText \<circ> snd) (spec_predicates params) @ (if k = 0 then [] else [SNum (Num k)])"
    by (simp_all add: build_explicit)
  show ?thesis
    by (intro conjI) (fact zero nan no_offset no_start no_end no_level q0 v0 qk vk)+
qed

section \<open>The order of a request\<close>

text \<open>
  C3. The handler upper-cases the \<open>order\<close> parameter and passes it on through a cast;
  neither the handler nor the query builder compares it with \<open>ASC\<close> and \<open>DESC\<close>. For the
  request \<open>?order=foo\<close> the statement built ends with \<open>ORDER BY timestamp FOO\<close>.
\<close>

theorem C3_order_not_validated:
  "query (buildQueryFromParams (params_of_request parseInt [''order'' \<mapsto> ''foo'']))
     = ''SELECT * FROM logs ORDER BY timestamp FOO''"
  by (simp add: buildQueryFromParams_def Let_def push_level_def push_endDate_def
        push_startDate_def order_or_DESC_def params_of_request_def or_undefined_def
        toUpperCase_def toUpperCase_char_def)

section \<open>The file sink and the facade\<close>

lemma facade_steps:
  "facade rt config flt c w =
     (if db_run_throws flt then (Throw StoreWriteError, w\<lparr>dates := Suc (dates w)\<rparr>)
      else (Return (), file_step rt config flt c (console_step rt config c (insert_step rt c w))))"
  by (cases c)
     (simp_all add: Wlog_log_def Wlog_info_def Wlog_error_def new_Date_def db_run_insert_def
        bind_result_def getTimestamp_def formatLogEntry_def console_write_def Let_def
        file_step_def console_step_def insert_step_def stored_row_def console_line_def
        logged_entry_def)


lemma bind_result_frame:
  assumes "g (snd m) = a" and "\<And>x v. g (snd (f x v)) = g v"
  shows "g (snd (bind_result m f)) = a"
proof (cases m)
  case (Pair r v)
  then show ?thesis
    using assms by (cases r) (simp_all add: bind_result_def)
qed

lemma mkdirSync_frame:
  assumes "\<And>v x. g (v\<lparr>fs := x\<rparr>) = g v"
  shows "g (snd (mkdirSync flt p w)) = g w"
  by (simp add: mkdirSync_def assms split: option.splits node.splits)

lemma readFileSync_frame: "snd (readFileSync flt p w) = w"
  by (simp add: readFileSync_def split: option.splits node.splits)

lemma writeFileSync_frame:
  assumes "\<And>v x. g (v\<lparr>fs := x\<rparr>) = g v"
  shows "g (snd (writeFileSync flt p c w)) = g w"
  by (simp add: writeFileSync_def assms split: option.splits node.splits)

lemma ensureDirectoryExists_frame:
  assumes "\<And>v x. g (v\<lparr>fs := x\<rparr>) = g v"
  shows "g (snd (ensureDirectoryExists rt flt p w)) = g w"
  by (simp add: ensureDirectoryExists_def Let_def mkdirSync_frame [of g, OF assms])

lemma writeToFile_try_frame:
  assumes "\<And>v x. g (v\<lparr>fs := x\<rparr>) = g v"
  shows "g (snd (writeToFile_try rt config flt entry w)) = g w"
  unfolding writeToFile_try_def Let_def
  apply (rule bind_result_frame)
   apply (rule ensureDirectoryExists_frame [of g, OF assms])
  apply (rule bind_result_frame)
   apply (simp add: readFileSync_frame)
  apply (rule bind_result_frame)
   apply simp
  apply (rule writeFileSync_frame [of g, OF assms])
  done

lemma writeToFile_logs [simp]: "logs (writeToFile rt config flt entry w) = logs w"
  using writeToFile_try_frame [of logs rt config flt entry w]
  by (auto simp: writeToFile_def console_write_def split: prod.splits result.splits)

lemma writeToFile_seq [simp]: "seq (writeToFile rt config flt entry w) = seq w"
  using writeToFile_try_frame [of seq rt config flt entry w]
  by (auto simp: writeToFile_def console_write_def split: prod.splits result.splits)

lemma writeToFile_dates [simp]: "dates (writeToFile rt config flt entry w) = dates w"
  using writeToFile_try_frame [of dates rt config flt entry w]
  by (auto simp: writeToFile_def console_write_def split: prod.splits result.splits)

lemma writeToFile_console:
  "console (writeToFile rt config flt entry w) =
     console w @ (case fst (writeToFile_try rt config flt entry w) of
                    Throw e \<Rightarrow> [failure_report e] | Return u \<Rightarrow> [])"
  using writeToFile_try_frame [of console rt config flt entry w]
  by (auto simp: writeToFile_def console_write_def failure_report_def
      split: prod.splits result.splits)



lemma insert_step_simps [simp]:
  "logs (insert_step rt c w) = logs w @ [stored_row rt c w]"
  "seq (insert_step rt c w) = Suc (seq w)"
  "console (insert_step rt c w) = console w"
  "fs (insert_step rt c w) = fs w"
  "dates (insert_step rt c w) = Suc (dates w)"
  by (simp_all add: insert_step_def)

lemma console_step_simps [simp]:
  "logs (console_step rt config c w) = logs w"
  "seq (console_step rt config c w) = seq w"
  "console (console_step rt config c w)
     = console w @ (if logToConsole config then [console_line rt c (dates w)] else [])"
  "fs (console_step rt config c w) = fs w"
  "dates (console_step rt config c w) = dates w + (if logToConsole config then 1 else 0)"
  by (simp_all add: console_step_def)

lemma file_step_simps [simp]:
  "logs (file_step rt config flt c w) = logs w"
  "seq (file_step rt config flt c w) = seq w"
  "dates (file_step rt config flt c w) = dates w + (if logToFile config then 1 else 0)"
  by (simp_all add: file_step_def)

lemma file_step_off [simp]: "\<not> logToFile config \<Longrightarrow> file_step rt config flt c w = w"
  by (simp add: file_step_def)

section \<open>One call of the facade\<close>

text \<open>
  C8. When the store accepts the insert, a call of \<open>log\<close>, \<open>info\<close> or \<open>error\<close> returns
  and appends exactly one row to the table, whatever the configuration: no option guards
  the insert. With the console enabled and the file disabled it also prints exactly one
  line and leaves the filesystem as it was.
\<close>

theorem C8_fan_out_without_file:
  assumes "\<not> db_run_throws flt"
  shows "fst (facade rt config flt c w) = Return ()
    \<and> logs (snd (facade rt config flt c w)) = logs w @ [stored_row rt c w]
    \<and> (\<not> logToFile config \<longrightarrow> fs (snd (facade rt config flt c w)) = fs w)
    \<and> (logToConsole config \<and> \<not> logToFile config \<longrightarrow>
         console (snd (facade rt config flt c w))
           = console w @ [console_line rt c (Suc (dates w))])"
proof -
  let ?after = "snd (facade rt config flt c w)"
  have steps: "facade rt config flt c w
      = (Return (), file_step rt config flt c (console_step rt config c (insert_step rt c w)))"
    using assms by (simp add: facade_steps)
  have returns: "fst (facade rt config flt c w) = Return ()"
    by (simp add: steps)
  have row: "logs ?after = logs w @ [stored_row rt c w]"
    by (simp add: steps)
  have untouched: "fs ?after = fs w" if "\<not> logToFile config"
    using that by (simp add: steps)
  have line: "console ?after = console w @ [console_line rt c (Suc (dates w))]"
    if "logToConsole config \<and> \<not> logToFile config"
    using that by (simp add: steps)
  show ?thesis using returns row untouched line by blast
qed

text \<open>The logger built with no options, one \<open>info\<close> call.\<close>

theorem C8_fan_out_without_file_witness:
  "\<not> db_run_throws no_faults
   \<and> logToConsole defaultLogger \<and> \<not> logToFile defaultLogger
   \<and> fst (facade example_runtime defaultLogger no_faults (Info ''hello'') fresh_world) = Return ()
   \<and> logs (snd (facade example_runtime defaultLogger no_faults (Info ''hello'') fresh_world))
       = [\<lparr>row_id = 1, row_level = ''info'', row_message = ''hello'',
           row_timestamp = ''1970-01-01T00:00:00.000Z''\<rparr>]
   \<and> console (snd (facade example_runtime defaultLogger no_faults (Info ''hello'') fresh_world))
       = [(ConsoleInfo, ''[1/1/1970, 12:00:01 AM] [INFO] hello'', None)]
   \<and> fs (snd (facade example_runtime defaultLogger no_faults (Info ''hello'') fresh_world))
       = Map.empty"
  using C8_fan_out_without_file [of no_faults example_runtime defaultLogger "Info ''hello''"
      fresh_world]
  by (simp add: logger_defs example_defs stored_row_def console_line_def)

lemma file_step_console:
  "console (file_step rt config flt c w) =
     console w @ (if logToFile config
                  then (case fst (writeToFile_try rt config flt (logged_entry rt c (dates w))
                                    (w\<lparr>dates := Suc (dates w)\<rparr>)) of
                          Throw e \<Rightarrow> [failure_report e] | Return u \<Rightarrow> [])
                  else [])"
  by (simp add: file_step_def writeToFile_console)




text \<open>
  C9, as the code has it. A call constructs a \<open>Date\<close> for each timestamp: the stored ISO
  timestamp renders the first clock reading of the call, the console timestamp the next
  one, and the timestamp of the file entry the one after (the second when the console is
  disabled). They denote one instant only if the clock does not advance between the
  readings.
\<close>

theorem C9_three_clock_readings:
  assumes "\<not> db_run_throws flt"
  shows "row_timestamp (last (logs (snd (facade rt config flt c w))))
           = toISOString rt (clock rt (dates w))
    \<and> (logToConsole config \<longrightarrow>
         console (snd (facade rt config flt c w)) ! length (console w)
           = (call_channel c,
              ''['' @ toLocaleString rt (clock rt (dates w + 1)) @ ''] ['' @ call_label c
                @ ''] '' @ call_message c, None))
    \<and> (logToFile config \<longrightarrow>
         (\<exists>v. snd (facade rt config flt c w)
                = writeToFile rt config flt
                    \<lparr>timestamp = toLocaleString rt
                        (clock rt (dates w + (if logToConsole config then 2 else 1))),
                     level = call_label c, message = call_message c\<rparr> v))
    \<and> dates (snd (facade rt config flt c w)) = dates w + dates_per_call config"
proof -
  let ?w2 = "console_step rt config c (insert_step rt c w)"
  have f: "facade rt config flt c w = (Return (), file_step rt config flt c ?w2)"
    using assms by (simp add: facade_steps)
  have a: "row_timestamp (last (logs (snd (facade rt config flt c w))))
           = toISOString rt (clock rt (dates w))"
    by (simp add: f stored_row_def)
  have b: "console (snd (facade rt config flt c w)) ! length (console w)
           = (call_channel c,
              ''['' @ toLocaleString rt (clock rt (dates w + 1)) @ ''] ['' @ call_label c
                @ ''] '' @ call_message c, None)" if "logToConsole config"
    using that by (simp add: f file_step_console console_line_def nth_append)
  have c: "\<exists>v. snd (facade rt config flt c w)
                = writeToFile rt config flt
                    \<lparr>timestamp = toLocaleString rt
                        (clock rt (dates w + (if logToConsole config then 2 else 1))),
                     level = call_label c, message = call_message c\<rparr> v" if "logToFile config"
  proof -
    have "dates ?w2 = dates w + (if logToConsole config then 2 else 1)" by simp
    then have "snd (facade rt config flt c w)
        = writeToFile rt config flt
            \<lparr>timestamp = toLocaleString rt
                (clock rt (dates w + (if logToConsole config then 2 else 1))),
             level = call_label c, message = call_message c\<rparr> (?w2\<lparr>dates := Suc (dates ?w2)\<rparr>)"
      using that by (simp only: f snd_conv file_step_def if_True logged_entry_def)
    then show ?thesis by blast
  qed
  have d: "dates (snd (facade rt config flt c w)) = dates w + dates_per_call config"
    by (simp add: f dates_per_call_def)
  show ?thesis using a b c d by blast
qed

text \<open>C9 as stated fails: on a clock that advances between two readings the stored
  timestamp is midnight and the printed one a second later.\<close>

theorem C9_timestamps_one_second_apart:
  "map row_timestamp (logs (snd (Wlog_log example_runtime defaultLogger no_faults ''a''
       fresh_world))) = [''1970-01-01T00:00:00.000Z'']
   \<and> map (\<lambda>l. fst (snd l)) (console (snd (Wlog_log example_runtime defaultLogger no_faults ''a''
       fresh_world))) = [''[1/1/1970, 12:00:01 AM] [LOG] a'']"
  by (simp add: Wlog_log_def new_Date_def db_run_insert_def bind_result_def getTimestamp_def
        console_write_def logger_defs example_defs)

text \<open>The text logger of \<open>src/index.ts\<close>, one call.\<close>

theorem C9_three_clock_readings_witness:
  "\<not> db_run_throws no_faults \<and> logToConsole textLogger \<and> logToFile textLogger
   \<and> row_timestamp (last (logs (snd (facade example_runtime textLogger no_faults
         (Log ''This is a text log'') fresh_world)))) = ''1970-01-01T00:00:00.000Z''
   \<and> console (snd (facade example_runtime textLogger no_faults
         (Log ''This is a text log'') fresh_world)) ! 0
       = (ConsoleLog, ''[1/1/1970, 12:00:01 AM] [LOG] This is a text log'', None)
   \<and> (\<exists>v. snd (facade example_runtime textLogger no_faults (Log ''This is a text log'')
               fresh_world)
            = writeToFile example_runtime textLogger no_faults
                \<lparr>timestamp = ''1/1/1970, 12:00:02 AM'', level = ''LOG'',
                 message = ''This is a text log''\<rparr> v)
   \<and> dates (snd (facade example_runtime textLogger no_faults (Log ''This is a text log'')
         fresh_world)) = 3"
  using C9_three_clock_readings [of no_faults example_runtime textLogger
      "Log ''This is a text log''" fresh_world]
  by (simp add: logger_defs example_defs dates_per_call_def)

section \<open>The CSV file\<close>

lemma writeToFile_no_faults:
  assumes dir: "dirname rt (getFullFilePath config) \<noteq> getFullFilePath config"
    and nodir: "fs w (getFullFilePath config) \<noteq> Some Dir"
    and nc: "newContent_of rt (fileFormat config) (file_content w (getFullFilePath config)) entry
             = Return text"
  shows "writeToFile rt config no_faults entry w =
           w\<lparr>fs := (if fs w (dirname rt (getFullFilePath config)) = None
                     then (fs w)(dirname rt (getFullFilePath config) \<mapsto> Dir) else fs w)
                    (getFullFilePath config \<mapsto> File text)\<rparr>"
proof (cases "fs w (getFullFilePath config)")
  case None
  with dir nc show ?thesis
    by (simp add: writeToFile_def writeToFile_try_def bind_result_def ensureDirectoryExists_def
          existsSync_def mkdirSync_def readFileSync_def writeFileSync_def no_faults_def Let_def
          file_content_def)
next
  case (Some nd)
  with nodir obtain c where c: "fs w (getFullFilePath config) = Some (File c)"
    by (cases nd) auto
  with dir nc show ?thesis
    by (simp add: writeToFile_def writeToFile_try_def bind_result_def ensureDirectoryExists_def
          existsSync_def mkdirSync_def readFileSync_def writeFileSync_def no_faults_def Let_def
          file_content_def)
qed

lemma writeToFile_no_faults_content:
  assumes "dirname rt (getFullFilePath config) \<noteq> getFullFilePath config"
    and "fs w (getFullFilePath config) \<noteq> Some Dir"
    and "newContent_of rt (fileFormat config) (file_content w (getFullFilePath config)) entry
         = Return text"
  shows "fs (writeToFile rt config no_faults entry w) (getFullFilePath config) = Some (File text)"
    and "file_content (writeToFile rt config no_faults entry w) (getFullFilePath config) = text"
    and "console (writeToFile rt config no_faults entry w) = console w"
  by (simp_all add: writeToFile_no_faults [OF assms] file_content_def)

lemma newContent_of_CSV:
  "newContent_of rt CSV content entry =
     Return ((if content = [] then csv_header else content) @ csv_line entry)"
  by (simp add: newContent_of_def csv_header_def csv_line_def)

lemma facade_csv:
  assumes csv: "fileFormat config = CSV" and on: "logToFile config"
    and dir: "dirname rt (getFullFilePath config) \<noteq> getFullFilePath config"
    and nodir: "fs w (getFullFilePath config) \<noteq> Some Dir"
  shows "fst (facade rt config no_faults c w) = Return ()"
    and "fs (snd (facade rt config no_faults c w)) (getFullFilePath config) =
           Some (File ((if file_content w (getFullFilePath config) = [] then csv_header
                        else file_content w (getFullFilePath config))
                       @ csv_line (logged_entry rt c (dates w + dates_per_call config - 1))))"
    and "dates (snd (facade rt config no_faults c w)) = dates w + dates_per_call config"
proof -
  let ?w2 = "console_step rt config c (insert_step rt c w)"
  let ?w3 = "?w2\<lparr>dates := Suc (dates ?w2)\<rparr>"
  let ?p = "getFullFilePath config"
  have f: "facade rt config no_faults c w
           = (Return (), writeToFile rt config no_faults (logged_entry rt c (dates ?w2)) ?w3)"
    using on by (simp add: facade_steps file_step_def no_faults_def)
  have d: "dates ?w2 = dates w + dates_per_call config - 1"
    using on by (simp add: dates_per_call_def)
  have fs3: "fs ?w3 = fs w" by simp
  have nodir3: "fs ?w3 ?p \<noteq> Some Dir" using nodir by simp
  have fc: "file_content ?w3 ?p = file_content w ?p" by (simp add: file_content_def)
  have nc: "newContent_of rt (fileFormat config) (file_content ?w3 ?p) (logged_entry rt c (dates ?w2))
      = Return ((if file_content w ?p = [] then csv_header else file_content w ?p)
                @ csv_line (logged_entry rt c (dates ?w2)))"
    by (simp only: csv newContent_of_CSV fc)
  show "fst (facade rt config no_faults c w) = Return ()" by (simp add: f)
  show "fs (snd (facade rt config no_faults c w)) ?p =
           Some (File ((if file_content w ?p = [] then csv_header else file_content w ?p)
                       @ csv_line (logged_entry rt c (dates w + dates_per_call config - 1))))"
    using writeToFile_no_faults_content(1) [OF dir nodir3 nc] by (simp only: f snd_conv d)
  show "dates (snd (facade rt config no_faults c w)) = dates w + dates_per_call config"
    using on by (simp add: f dates_per_call_def)
qed

lemma run_calls_csv:
  assumes csv: "fileFormat config = CSV" and on: "logToFile config"
    and dir: "dirname rt (getFullFilePath config) \<noteq> getFullFilePath config"
  shows "fs w (getFullFilePath config) \<noteq> Some Dir \<Longrightarrow>
         fst (run_calls rt config no_faults cs w) = Return ()
         \<and> fs (snd (run_calls rt config no_faults cs w)) (getFullFilePath config) \<noteq> Some Dir
         \<and> (cs \<noteq> [] \<longrightarrow>
              fs (snd (run_calls rt config no_faults cs w)) (getFullFilePath config) =
                Some (File ((if file_content w (getFullFilePath config) = [] then csv_header
                             else file_content w (getFullFilePath config))
                            @ concat (map csv_line
                                (logged_entries rt (dates_per_call config) (dates w) cs)))))"
proof (induction cs arbitrary: w)
  case Nil
  then show ?case by simp
next
  case (Cons c cs)
  let ?p = "getFullFilePath config"
  let ?w1 = "snd (facade rt config no_faults c w)"
  let ?line = "csv_line (logged_entry rt c (dates w + dates_per_call config - 1))"
  let ?start = "(if file_content w ?p = [] then csv_header else file_content w ?p)"
  note step = facade_csv [OF csv on dir Cons.prems, of c]
  have run: "run_calls rt config no_faults (c # cs) w = run_calls rt config no_faults cs ?w1"
    using step(1) by (cases "facade rt config no_faults c w") (simp add: bind_result_def)
  have fs1: "fs ?w1 ?p = Some (File (?start @ ?line))" by (rule step(2))
  then have nodir1: "fs ?w1 ?p \<noteq> Some Dir" by simp
  have fc1: "file_content ?w1 ?p = ?start @ ?line" using fs1 by (simp add: file_content_def)
  have ne: "?start @ ?line \<noteq> []" by (simp add: csv_line_def)
  note ih = Cons.IH [OF nodir1]
  show ?case
  proof (cases cs)
    case Nil
    with run have r1: "run_calls rt config no_faults (c # cs) w = (Return (), ?w1)" by simp
    show ?thesis unfolding r1 using fs1 Nil by simp
  next
    case (Cons c' cs')
    then have "cs \<noteq> []" by simp
    with ih have "fs (snd (run_calls rt config no_faults cs ?w1)) ?p =
        Some (File ((?start @ ?line)
          @ concat (map csv_line (logged_entries rt (dates_per_call config) (dates ?w1) cs))))"
      using ne by (simp add: fc1)
    moreover have "dates ?w1 = dates w + dates_per_call config" by (rule step(3))
    ultimately have fsN: "fs (snd (run_calls rt config no_faults cs ?w1)) ?p =
        Some (File (?start @ ?line
          @ concat (map csv_line
              (logged_entries rt (dates_per_call config) (dates w + dates_per_call config) cs))))"
      by simp
    have r: "fst (run_calls rt config no_faults cs ?w1) = Return ()"
      by (rule ih [THEN conjunct1])
    have nd: "fs (snd (run_calls rt config no_faults cs ?w1)) ?p \<noteq> Some Dir"
      by (rule ih [THEN conjunct2, THEN conjunct1])
    show ?thesis unfolding run using r nd fsN by simp
  qed
qed

lemma split_lines_line:
  "CHR 0x0A \<notin> set s \<Longrightarrow>
   split_lines acc (s @ CHR 0x0A # rest) = (acc @ s) # split_lines [] rest"
  by (induction s arbitrary: acc) auto

lemma file_lines_line:
  "CHR 0x0A \<notin> set s \<Longrightarrow> file_lines (s @ CHR 0x0A # rest) = s # file_lines rest"
  by (simp add: file_lines_def split_lines_line)

lemma file_lines_csv_header: "file_lines (csv_header @ rest) = ''timestamp,level,message'' # file_lines rest"
  using file_lines_line [of "''timestamp,level,message''" rest] by (simp add: csv_header_def)

lemma length_logged_entries [simp]: "length (logged_entries rt per d cs) = length cs"
  by (induction cs arbitrary: d) simp_all

text \<open>
  C7. A CSV logger with file output, no filesystem failure, and no file at its path: after
  any run of one or more calls the file is the header \<open>timestamp,level,message\<close>, written
  once, followed by one comma-joined line per call, in the order of the calls; its first
  line is the header.
\<close>

theorem C7_csv_header_once:
  assumes "fileFormat config = CSV" and "logToFile config"
    and "dirname rt (getFullFilePath config) \<noteq> getFullFilePath config"
    and "fs w (getFullFilePath config) = None"
  shows "fst (run_calls rt config no_faults (c # cs) w) = Return ()
    \<and> fs (snd (run_calls rt config no_faults (c # cs) w)) (getFullFilePath config) =
        Some (File (''timestamp,level,message\<newline>''
          @ concat (map csv_line
              (logged_entries rt (dates_per_call config) (dates w) (c # cs)))))
    \<and> length (logged_entries rt (dates_per_call config) (dates w) (c # cs)) = length (c # cs)
    \<and> take 1 (file_lines (file_content (snd (run_calls rt config no_faults (c # cs) w))
                 (getFullFilePath config))) = [''timestamp,level,message'']"
proof -
  let ?p = "getFullFilePath config"
  have nodir: "fs w ?p \<noteq> Some Dir" using assms(4) by simp
  have empty: "file_content w ?p = []" using assms(4) by (simp add: file_content_def)
  note run = run_calls_csv [OF assms(1-3) nodir, of "c # cs"]
  from run have r: "fst (run_calls rt config no_faults (c # cs) w) = Return ()" by blast
  from run have f: "fs (snd (run_calls rt config no_faults (c # cs) w)) ?p =
      Some (File (csv_header
        @ concat (map csv_line (logged_entries rt (dates_per_call config) (dates w) (c # cs)))))"
    using empty by simp
  have l: "take 1 (file_lines (file_content (snd (run_calls rt config no_faults (c # cs) w)) ?p))
      = [''timestamp,level,message'']"
    by (simp only: file_content_def f option.case node.case file_lines_csv_header) simp
  show ?thesis using r f l by (simp add: csv_header_def)
qed

text \<open>The CSV logger of \<open>src/index.ts\<close>, two calls.\<close>

theorem C7_csv_header_once_witness:
  "fileFormat csvLogger = CSV \<and> logToFile csvLogger
   \<and> dirname example_runtime (getFullFilePath csvLogger) \<noteq> getFullFilePath csvLogger
   \<and> fs fresh_world (getFullFilePath csvLogger) = None
   \<and> fs (snd (run_calls example_runtime csvLogger no_faults
               [Error ''This is a CSV log'', Log ''x''] fresh_world)) ''logs/csv-logs.csv''
     = Some (File ''timestamp,level,message\<newline>1/1/1970, 12:00:01 AM,ERROR,This is a CSV log\<newline>1/1/1970, 12:00:03 AM,LOG,x\<newline>'')"
  using C7_csv_header_once [of csvLogger example_runtime fresh_world "Error ''This is a CSV log''" "[Log ''x'']"]
  by (simp add: logger_defs example_defs dates_per_call_def csv_line_def logged_entry_def)

lemma scenario_config [simp]:
  "fileFormat scenarioLogger = CSV" "logToFile scenarioLogger" "logToConsole scenarioLogger"
  "getFullFilePath scenarioLogger = ''t.csv''" "dates_per_call scenarioLogger = 3"
  by (simp_all add: logger_defs dates_per_call_def)

text \<open>
  C2, as the code has it. The logger built from
  \<open>{logToFile: true, filePath: "t", fileFormat: "csv"}\<close>, \<open>log("a")\<close> then \<open>error("b")\<close>, no
  file \<open>t.csv\<close> before and no failure: the file holds the header, a line ending in
  \<open>,LOG,a\<close> and a line ending in \<open>,ERROR,b\<close> (the labels are upper case), which are exactly
  its three lines when the rendered timestamps contain no newline. The two timestamps
  render the third and the sixth clock reading of the run, so the instants are in
  non-decreasing order when the clock is monotone.
\<close>

theorem C2_csv_scenario:
  assumes "dirname rt ''t.csv'' \<noteq> ''t.csv''"
    and "fs w ''t.csv'' = None"
  shows "fst (run_calls rt scenarioLogger no_faults [Log ''a'', Error ''b''] w) = Return ()
    \<and> fs (snd (run_calls rt scenarioLogger no_faults [Log ''a'', Error ''b''] w)) ''t.csv''
        = Some (File (''timestamp,level,message\<newline>''
            @ toLocaleString rt (clock rt (dates w + 2)) @ '',LOG,a\<newline>''
            @ toLocaleString rt (clock rt (dates w + 5)) @ '',ERROR,b\<newline>''))
    \<and> (CHR 0x0A \<notin> set (toLocaleString rt (clock rt (dates w + 2)))
         \<and> CHR 0x0A \<notin> set (toLocaleString rt (clock rt (dates w + 5))) \<longrightarrow>
       file_lines (file_content
           (snd (run_calls rt scenarioLogger no_faults [Log ''a'', Error ''b''] w)) ''t.csv'')
        = [''timestamp,level,message'',
           toLocaleString rt (clock rt (dates w + 2)) @ '',LOG,a'',
           toLocaleString rt (clock rt (dates w + 5)) @ '',ERROR,b''])
    \<and> (mono (clock rt) \<longrightarrow> clock rt (dates w + 2) \<le> clock rt (dates w + 5))"
proof -
  let ?run = "run_calls rt scenarioLogger no_faults [Log ''a'', Error ''b''] w"
  let ?t1 = "toLocaleString rt (clock rt (dates w + 2))"
  let ?t2 = "toLocaleString rt (clock rt (dates w + 5))"
  have nodir: "fs w (getFullFilePath scenarioLogger) \<noteq> Some Dir" using assms(2) by simp
  have dir: "dirname rt (getFullFilePath scenarioLogger) \<noteq> getFullFilePath scenarioLogger"
    using assms(1) by simp
  have empty: "file_content w ''t.csv'' = []" using assms(2) by (simp add: file_content_def)
  note run = run_calls_csv [OF scenario_config(1) scenario_config(2) dir nodir,
      of "[Log ''a'', Error ''b'']"]
  have r: "fst ?run = Return ()" by (rule run [THEN conjunct1])
  have f: "fs (snd ?run) ''t.csv'' = Some (File (''timestamp,level,message\<newline>''
            @ ?t1 @ '',LOG,a\<newline>'' @ ?t2 @ '',ERROR,b\<newline>''))"
    using run [THEN conjunct2, THEN conjunct2] empty
    by (simp add: csv_header_def csv_line_def logged_entry_def numeral_eq_Suc add.commute)
  have l: "file_lines (file_content (snd ?run) ''t.csv'')
        = [''timestamp,level,message'', ?t1 @ '',LOG,a'', ?t2 @ '',ERROR,b'']"
    if "CHR 0x0A \<notin> set ?t1" "CHR 0x0A \<notin> set ?t2"
  proof -
    have c: "file_content (snd ?run) ''t.csv''
        = ''timestamp,level,message'' @ CHR 0x0A # (?t1 @ '',LOG,a'') @ CHR 0x0A
            # (?t2 @ '',ERROR,b'') @ CHR 0x0A # []"
      using f by (simp add: file_content_def)
    show ?thesis
      unfolding c using that
      by (subst file_lines_line, simp)+ (simp add: file_lines_def)
  qed
  have m: "clock rt (dates w + 2) \<le> clock rt (dates w + 5)" if "mono (clock rt)"
    using that by (simp add: monoD)
  show ?thesis using r f l m by blast
qed

text \<open>The scenario on the concrete runtime.\<close>

theorem C2_csv_scenario_witness:
  "dirname example_runtime ''t.csv'' \<noteq> ''t.csv'' \<and> fs fresh_world ''t.csv'' = None
   \<and> mono (clock example_runtime)
   \<and> file_lines (file_content
         (snd (run_calls example_runtime scenarioLogger no_faults [Log ''a'', Error ''b'']
                 fresh_world)) ''t.csv'')
       = [''timestamp,level,message'', ''1/1/1970, 12:00:02 AM,LOG,a'',
          ''1/1/1970, 12:00:05 AM,ERROR,b'']
   \<and> clock example_runtime 2 \<le> clock example_runtime 5"
proof -
  have m: "mono (clock example_runtime)"
    by (simp add: example_runtime_def mono_def)
  show ?thesis
    using C2_csv_scenario [of example_runtime fresh_world] m
    by (simp add: example_defs)
qed

text \<open>C2 as stated fails: the second line of the file does not end in \<open>,log,a\<close>.\<close>

theorem C2_levels_are_upper_case:
  "\<not> suffix '',log,a''
       (file_lines (file_content
          (snd (run_calls example_runtime scenarioLogger no_faults [Log ''a'', Error ''b'']
                  fresh_world)) ''t.csv'') ! 1)"
proof -
  have "file_lines (file_content
         (snd (run_calls example_runtime scenarioLogger no_faults [Log ''a'', Error ''b'']
                 fresh_world)) ''t.csv'')
       = [''timestamp,level,message'', ''1/1/1970, 12:00:02 AM,LOG,a'',
          ''1/1/1970, 12:00:05 AM,ERROR,b'']"
    using run_calls_csv [of scenarioLogger example_runtime fresh_world "[Log ''a'', Error ''b'']"]
    by (simp add: example_defs csv_header_def csv_line_def logged_entry_def file_content_def
          file_lines_def numeral_eq_Suc)
  then show ?thesis by (simp add: suffix_to_prefix)
qed

section \<open>The JSON file\<close>

lemma newContent_of_JSON_empty:
  "newContent_of rt JSON [] entry = Return (JSON_stringify rt (json_of_entries [entry]))"
  by (simp add: newContent_of_def json_of_entries_def)

lemma newContent_of_JSON_array:
  assumes "JSON_roundtrip rt (json_of_entries written)"
  shows "newContent_of rt JSON (JSON_stringify rt (json_of_entries written)) entry
         = Return (JSON_stringify rt (json_of_entries (written @ [entry])))"
  using assms by (simp add: newContent_of_def JSON_roundtrip_def json_of_entries_def)

lemma write_all_json:
  assumes json: "fileFormat config = JSON"
    and dir: "dirname rt (getFullFilePath config) \<noteq> getFullFilePath config"
  shows "fs w (getFullFilePath config) \<noteq> Some Dir \<Longrightarrow>
         file_content w (getFullFilePath config)
           = (if written = [] then [] else JSON_stringify rt (json_of_entries written)) \<Longrightarrow>
         (\<And>k. 0 < k \<Longrightarrow> k \<le> length (written @ entries) \<Longrightarrow>
               JSON_roundtrip rt (json_of_entries (take k (written @ entries)))) \<Longrightarrow>
         entries \<noteq> [] \<Longrightarrow>
         fs (write_all rt config no_faults entries w) (getFullFilePath config)
           = Some (File (JSON_stringify rt (json_of_entries (written @ entries))))"
proof (induction entries arbitrary: w written)
  case Nil
  then show ?case by simp
next
  case (Cons entry entries)
  let ?p = "getFullFilePath config"
  let ?text = "JSON_stringify rt (json_of_entries (written @ [entry]))"
  let ?w1 = "writeToFile rt config no_faults entry w"
  have nc: "newContent_of rt (fileFormat config) (file_content w ?p) entry = Return ?text"
  proof (cases "written = []")
    case True
    then show ?thesis using Cons.prems(2) by (simp add: json newContent_of_JSON_empty)
  next
    case False
    then have "JSON_roundtrip rt (json_of_entries (take (length written) (written @ entry # entries)))"
      by (intro Cons.prems(3)) simp_all
    then have "JSON_roundtrip rt (json_of_entries written)" by simp
    then show ?thesis
      using False Cons.prems(2) by (simp add: json newContent_of_JSON_array)
  qed
  note wr = writeToFile_no_faults_content [OF dir Cons.prems(1) nc]
  show ?case
  proof (cases "entries = []")
    case True
    then show ?thesis using wr(1) by simp
  next
    case False
    have nodir1: "fs ?w1 ?p \<noteq> Some Dir" using wr(1) by simp
    have fc1: "file_content ?w1 ?p
        = (if written @ [entry] = [] then [] else JSON_stringify rt (json_of_entries (written @ [entry])))"
      using wr(2) by simp
    have rt1: "JSON_roundtrip rt (json_of_entries (take k ((written @ [entry]) @ entries)))"
      if "0 < k" "k \<le> length ((written @ [entry]) @ entries)" for k
      using Cons.prems(3) [of k] that by simp
    from Cons.IH [OF nodir1 fc1 rt1 False] show ?thesis by simp
  qed
qed

text \<open>
  C6. A JSON logger, no filesystem failure, a file that is absent or empty, and a
  \<open>JSON.stringify\<close> whose output for each array written is not empty and is parsed back by
  \<open>JSON.parse\<close> to that array: after the entries \<open>e1..en\<close> (\<open>n \<ge> 1\<close>) have been written one
  after the other, the file parses as the array \<open>[e1, ..., en]\<close>; with no entry nothing is
  written. Each write parses the content (or starts from the empty array), pushes the
  entry and writes the serialized array.
\<close>

theorem C6_json_file_is_the_array:
  assumes "fileFormat config = JSON"
    and "dirname rt (getFullFilePath config) \<noteq> getFullFilePath config"
    and "fs w (getFullFilePath config) = None \<or> fs w (getFullFilePath config) = Some (File [])"
    and "list_all (\<lambda>k. JSON_roundtrip rt (json_of_entries (take k entries)))
           [1..<Suc (length entries)]"
  shows "(entries = [] \<longrightarrow> write_all rt config no_faults entries w = w)
    \<and> (entries \<noteq> [] \<longrightarrow>
         (\<exists>content.
            fs (write_all rt config no_faults entries w) (getFullFilePath config)
              = Some (File content)
            \<and> JSON_parse rt content = Some (JArr (map json_of_entry entries))))"
proof (cases "entries = []")
  case True
  then show ?thesis by simp
next
  case False
  let ?p = "getFullFilePath config"
  have nodir: "fs w ?p \<noteq> Some Dir" using assms(3) by auto
  have fc: "file_content w ?p = (if ([]::LogEntry list) = [] then [] else JSON_stringify rt (json_of_entries []))"
    using assms(3) by (auto simp: file_content_def)
  have rt: "JSON_roundtrip rt (json_of_entries (take k ([] @ entries)))"
    if "0 < k" "k \<le> length ([] @ entries)" for k
  proof -
    from that have "k \<in> set [1..<Suc (length entries)]" by auto
    with assms(4) show ?thesis unfolding list_all_iff append_Nil by blast
  qed
  from write_all_json [OF assms(1,2) nodir fc rt False]
  have f: "fs (write_all rt config no_faults entries w) ?p
      = Some (File (JSON_stringify rt (json_of_entries entries)))" by simp
  have "JSON_roundtrip rt (json_of_entries (take (length entries) ([] @ entries)))"
    using False by (intro rt) simp_all
  then have "JSON_parse rt (JSON_stringify rt (json_of_entries entries))
      = Some (JArr (map json_of_entry entries))"
    by (simp add: JSON_roundtrip_def json_of_entries_def)
  with f False show ?thesis by blast
qed

text \<open>The JSON logger of \<open>src/index.ts\<close>, two entries.\<close>

theorem C6_json_file_is_the_array_witness:
  "fileFormat jsonLogger = JSON
   \<and> dirname example_runtime (getFullFilePath jsonLogger) \<noteq> getFullFilePath jsonLogger
   \<and> fs fresh_world (getFullFilePath jsonLogger) = None
   \<and> list_all (\<lambda>k. JSON_roundtrip example_runtime (json_of_entries (take k example_entries)))
        [1..<Suc (length example_entries)]
   \<and> (\<exists>content.
        fs (write_all example_runtime jsonLogger no_faults example_entries fresh_world)
          ''logs/json-logs.json'' = Some (File content)
        \<and> example_JSON_parse content = Some (JArr (map json_of_entry example_entries)))"
proof -
  have a: "fileFormat jsonLogger = JSON"
    and b: "dirname example_runtime (getFullFilePath jsonLogger) \<noteq> getFullFilePath jsonLogger"
    and c: "fs fresh_world (getFullFilePath jsonLogger) = None"
    and p: "getFullFilePath jsonLogger = ''logs/json-logs.json''"
    by (simp_all add: logger_defs example_defs)
  have d: "list_all (\<lambda>k. JSON_roundtrip example_runtime (json_of_entries (take k example_entries)))
        [1..<Suc (length example_entries)]"
    by (simp add: example_entries_def upt_rec JSON_roundtrip_def example_runtime_def
          example_JSON_stringify_def example_JSON_parse_def example_text1_def example_text2_def
          json_of_entries_def json_of_entry_def)
  have e: "example_entries \<noteq> []" by (simp add: example_entries_def)
  from C6_json_file_is_the_array [OF a b disjI1 [OF c] d] e p
  have "\<exists>content.
        fs (write_all example_runtime jsonLogger no_faults example_entries fresh_world)
          ''logs/json-logs.json'' = Some (File content)
        \<and> JSON_parse example_runtime content = Some (JArr (map json_of_entry example_entries))"
    by simp
  then show ?thesis using a b c d by (simp add: example_runtime_def)
qed

section \<open>Pagination\<close>














end
